theory Spec2Isabelle
  imports Complex_Main "HOL-Library.Sublist" "HOL-Library.Multiset" "HOL-Library.Code_Target_Nat"
begin

section \<open>Strings and JSON-like values\<close>

text \<open>
  A Python \<open>str\<close> is a sequence of Unicode code points; \<open>len\<close> counts code points and
  the keyword tables of the source are Chinese.  A string is therefore modelled as the list
  of its code points.  \<open>py\<close> embeds an ASCII literal.
\<close>

type_synonym pystr = "nat list"

definition py :: "string \<Rightarrow> pystr" where
  "py s = map of_char s"

text \<open>\<open>d.get(k, default)\<close> on a dictionary whose key \<open>k\<close> may be absent.\<close>

definition dict_get :: "'a option \<Rightarrow> 'a \<Rightarrow> 'a" where
  "dict_get v d = (case v of None \<Rightarrow> d | Some x \<Rightarrow> x)"

text \<open>The exceptions that the modelled code can raise.\<close>

datatype py_error = IndexError | ValueError

text \<open>The values stored under \<open>properties\<close>: strings and lists of strings.\<close>

datatype pyval = PStr pystr | PList "pystr list"

section \<open>The unified graph (knowledge\_graph\_fuser.py)\<close>

record unified_node =
  node_id :: pystr
  label :: pystr
  node_type :: pystr
  summary :: pystr
  difficulty :: int
  section_num :: pystr
  node_keywords :: "pystr list"
  formulas :: "pystr list"
  applications :: "pystr list"
  properties :: "(pystr \<times> pyval) list"
  level :: int
  node_source :: pystr

record unified_edge =
  source_id :: pystr
  target_id :: pystr
  relationship :: pystr
  description :: pystr
  weight :: rat
  evidence :: pystr
  bidirectional :: bool
  edge_type :: pystr
  edge_source :: pystr

record statistics =
  stat_total_nodes :: nat
  stat_total_edges :: nat
  stat_main_logic_nodes :: nat
  stat_basic_concept_nodes :: nat
  stat_core_technology_nodes :: nat
  stat_circuit_application_nodes :: nat
  stat_cross_section_edges :: nat

record unified_kg =
  nodes :: "unified_node list"
  edges :: "unified_edge list"
  stats :: statistics

subsection \<open>\<open>_optimize_unified_kg\<close>\<close>

text \<open>
  The two loops of \<open>_optimize_unified_kg\<close>: \<open>seen\<close> is the set of keys met so far,
  \<open>acc\<close> the list of kept elements, appended to in input order.
\<close>

fun unique_nodes_loop :: "unified_node list \<Rightarrow> pystr set \<Rightarrow> unified_node list \<Rightarrow> unified_node list" where
  "unique_nodes_loop [] seen acc = acc"
| "unique_nodes_loop (n # ns) seen acc =
     (if node_id n \<notin> seen
      then unique_nodes_loop ns (insert (node_id n) seen) (acc @ [n])
      else unique_nodes_loop ns seen acc)"

definition edge_key :: "unified_edge \<Rightarrow> pystr \<times> pystr \<times> pystr" where
  "edge_key e = (source_id e, target_id e, relationship e)"

fun unique_edges_loop :: "unified_edge list \<Rightarrow> (pystr \<times> pystr \<times> pystr) set \<Rightarrow> unified_edge list \<Rightarrow> unified_edge list" where
  "unique_edges_loop [] seen acc = acc"
| "unique_edges_loop (e # es) seen acc =
     (if edge_key e \<notin> seen
      then unique_edges_loop es (insert (edge_key e) seen) (acc @ [e])
      else unique_edges_loop es seen acc)"

definition optimize_unified_kg :: "unified_kg \<Rightarrow> unified_kg" where
  "optimize_unified_kg kg =
     (let unique_nodes = unique_nodes_loop (nodes kg) {} [];
          unique_edges = unique_edges_loop (edges kg) {} []
      in kg\<lparr> nodes := unique_nodes,
              edges := unique_edges,
              stats := (stats kg)\<lparr> stat_total_nodes := length unique_nodes,
                                      stat_total_edges := length unique_edges \<rparr> \<rparr>)"

subsection \<open>The inputs of the fusion: JSON documents read from disk\<close>

text \<open>
  The three inputs are JSON documents; every key is read with \<open>.get(key, default)\<close>, so a
  key may be absent.  A field of type \<open>'a option\<close> is \<open>None\<close> when the key is absent.
\<close>

record main_node =
  mn_id :: "pystr option"
  mn_label :: "pystr option"
  mn_summary :: "pystr option"
  mn_difficulty :: "int option"
  mn_section_num :: "pystr option"
  mn_key_concepts :: "pystr list option"
  mn_learning_objectives :: "pystr list option"
  mn_knowledge_layer :: "pystr option"
  mn_prerequisites :: "pystr list option"

record main_edge =
  me_source_id :: "pystr option"
  me_target_id :: "pystr option"
  me_relationship :: "pystr option"
  me_description :: "pystr option"
  me_weight :: "rat option"
  me_reasoning :: "pystr option"

record main_logic_kg =
  mk_nodes :: "main_node list option"
  mk_edges :: "main_edge list option"
  mk_other_keys :: "pystr list"

record sub_node =
  sn_id :: "pystr option"
  sn_label :: "pystr option"
  sn_node_type :: "pystr option"
  sn_summary :: "pystr option"
  sn_difficulty :: "int option"
  sn_keywords :: "pystr list option"
  sn_formulas :: "pystr list option"
  sn_applications :: "pystr list option"
  sn_properties :: "(pystr \<times> pyval) list option"
  sn_related_sections :: "pystr list option"
  sn_prerequisites :: "pyval option"
  sn_derived_concepts :: "pystr list option"
  sn_practical_examples :: "pystr list option"
  sn_technical_details :: "pystr option"

record sub_edge =
  se_source_id :: "pystr option"
  se_target_id :: "pystr option"
  se_relationship :: "pystr option"
  se_description :: "pystr option"
  se_weight :: "rat option"
  se_evidence :: "pystr option"
  se_bidirectional :: "bool option"

record sub_logic_kg =
  sk_section_num :: "pystr option"
  sk_title :: "pystr option"
  sk_nodes :: "sub_node list option"
  sk_edges :: "sub_edge list option"

record connection =
  cn_has_connection :: "bool option"
  cn_source_id :: "pystr option"
  cn_target_id :: "pystr option"
  cn_connection_type :: "pystr option"
  cn_description :: "pystr option"
  cn_connection_strength :: "rat option"
  cn_technical_evidence :: "pystr option"

subsection \<open>Keyword similarity\<close>

text \<open>
  Python's \<open>a / b\<close> on two integers is the binary64 number nearest to the exact quotient,
  ties going to the even significand.  \<open>py_truediv p q\<close> is that number, as a rational,
  for \<open>0 \<le> p \<le> q\<close> and \<open>0 < q\<close>, the only case in which the source divides (the size
  of an intersection by the size of the union).  With \<open>e\<close> such that
  \<open>1 \<le> p / q * 2 ^ e < 2\<close>, the significand has 53 bits, so the quotient is rounded to a
  multiple of \<open>2 ^ -(52 + e)\<close>; below the normal range the spacing stays \<open>2 ^ -1074\<close>.
\<close>

fun bit_length :: "nat \<Rightarrow> nat" where
  "bit_length n = (if n = 0 then 0 else Suc (bit_length (n div 2)))"

declare bit_length.simps [simp del]

definition round_half_even :: "nat \<Rightarrow> nat \<Rightarrow> nat" where
  "round_half_even a b =
     (let f = a div b; r = a mod b
      in if 2 * r < b then f
         else if b < 2 * r then f + 1
         else if even f then f else f + 1)"

definition py_truediv :: "nat \<Rightarrow> nat \<Rightarrow> rat" where
  "py_truediv p q =
     (if p = 0 then 0
      else
        (let k = bit_length q - bit_length p;
             e = (if q \<le> p * 2 ^ k then k else k + 1);
             s = min (52 + e) 1074
         in rat_of_nat (round_half_even (p * 2 ^ s) q) / 2 ^ s))"

text \<open>
  The binary64 values of the literals \<open>0.2\<close> and \<open>0.4\<close>:
  \<open>3602879701896397 / 2 ^ 54\<close> and \<open>3602879701896397 / 2 ^ 53\<close>.
\<close>

definition float_0_2 :: rat where
  "float_0_2 = 3602879701896397 / 18014398509481984"

definition float_0_4 :: rat where
  "float_0_4 = 3602879701896397 / 9007199254740992"

text \<open>
  \<open>_has_keyword_similarity\<close>.  The threshold is the value of a finite binary64 number;
  \<open>similarity >= threshold\<close> compares the two values exactly.
\<close>

definition has_keyword_similarity :: "unified_node \<Rightarrow> unified_node \<Rightarrow> rat \<Rightarrow> bool" where
  "has_keyword_similarity node1 node2 threshold =
     (let keywords1 = set (node_keywords node1);
          keywords2 = set (node_keywords node2)
      in if keywords1 = {} \<or> keywords2 = {} then False
         else
           (let intersection = keywords1 \<inter> keywords2;
                union = keywords1 \<union> keywords2;
                similarity = (if union \<noteq> {}
                              then py_truediv (card intersection) (card union)
                              else 0)
            in similarity \<ge> threshold))"

definition has_strong_keyword_similarity :: "unified_node \<Rightarrow> unified_node \<Rightarrow> bool" where
  "has_strong_keyword_similarity node1 node2 = has_keyword_similarity node1 node2 float_0_4"

subsection \<open>Synthesised edges\<close>

text \<open>
  The Chinese fragments of the f-strings, by code point:
  \<open>desc_basic\<close> is U+57FA U+7840 U+6982 U+5FF5 ("basic concept"),
  \<open>desc_core\<close> is U+6838 U+5FC3 U+6280 U+672F ("core technology"),
  \<open>desc_app\<close> is U+7535 U+8DEF U+5E94 U+7528 ("circuit application").
\<close>

definition desc_basic :: pystr where
  "desc_basic = [0x57FA, 0x7840, 0x6982, 0x5FF5]"

definition desc_core :: pystr where
  "desc_core = [0x6838, 0x5FC3, 0x6280, 0x672F]"

definition desc_app :: pystr where
  "desc_app = [0x7535, 0x8DEF, 0x5E94, 0x7528]"

definition evid_hier :: pystr where
  "evid_hier = [0x57FA, 0x4E8E, 0x5173, 0x952E, 0x8BCD, 0x76F8, 0x4F3C, 0x6027, 0x7684, 0x5C42,
                0x6B21, 0x8FDE, 0x63A5]"

definition evid_strong :: pystr where
  "evid_strong = [0x57FA, 0x4E8E, 0x5F3A, 0x5173, 0x952E, 0x8BCD, 0x76F8, 0x4F3C, 0x6027, 0x7684,
                  0x76F4, 0x63A5, 0x652F, 0x6491]"

definition evid_app :: pystr where
  "evid_app = [0x57FA, 0x4E8E, 0x5173, 0x952E, 0x8BCD, 0x76F8, 0x4F3C, 0x6027, 0x7684, 0x5E94,
               0x7528, 0x5173, 0x8054]"

definition contains_application_edge :: "pystr \<Rightarrow> unified_node \<Rightarrow> unified_node \<Rightarrow> unified_edge" where
  "contains_application_edge sec main_node app_node =
     \<lparr> source_id = node_id main_node,
       target_id = node_id app_node,
       relationship = py ''contains_application'',
       description = [0x4E3B, 0x903B, 0x8F91, 0x7AE0, 0x8282] @ sec
                     @ [0x5305, 0x542B] @ desc_app @ label app_node,
       weight = 9/10,
       evidence = [0x7AE0, 0x8282] @ sec @ [0x7684, 0x4E3B, 0x8981, 0x5E94, 0x7528],
       bidirectional = False,
       edge_type = py ''main_to_sub'',
       edge_source = py ''hierarchical_connection'' \<rparr>"

definition enables_edge :: "unified_node \<Rightarrow> unified_node \<Rightarrow> unified_edge" where
  "enables_edge concept tech =
     \<lparr> source_id = node_id concept,
       target_id = node_id tech,
       relationship = py ''enables'',
       description = desc_basic @ label concept @ [0x4F7F, 0x80FD] @ desc_core @ label tech,
       weight = 7/10,
       evidence = evid_hier,
       bidirectional = False,
       edge_type = py ''hierarchical'',
       edge_source = py ''hierarchical_connection'' \<rparr>"

definition implements_edge :: "unified_node \<Rightarrow> unified_node \<Rightarrow> unified_edge" where
  "implements_edge tech app =
     \<lparr> source_id = node_id tech,
       target_id = node_id app,
       relationship = py ''implements'',
       description = desc_core @ label tech @ [0x5B9E, 0x73B0] @ desc_app @ label app,
       weight = 8/10,
       evidence = evid_hier,
       bidirectional = False,
       edge_type = py ''hierarchical'',
       edge_source = py ''hierarchical_connection'' \<rparr>"

definition supports_edge :: "unified_node \<Rightarrow> unified_node \<Rightarrow> unified_edge" where
  "supports_edge concept app =
     \<lparr> source_id = node_id concept,
       target_id = node_id app,
       relationship = py ''supports'',
       description = desc_basic @ label concept @ [0x652F, 0x6491] @ desc_app @ label app,
       weight = 6/10,
       evidence = evid_strong,
       bidirectional = False,
       edge_type = py ''hierarchical'',
       edge_source = py ''hierarchical_connection'' \<rparr>"

definition relates_edge :: "unified_node \<Rightarrow> unified_node \<Rightarrow> unified_edge" where
  "relates_edge app other_app =
     \<lparr> source_id = node_id app,
       target_id = node_id other_app,
       relationship = py ''relates_to_application'',
       description = desc_app @ label app @ [0x4E0E] @ label other_app
                     @ [0x6280, 0x672F, 0x76F8, 0x5173],
       weight = 5/10,
       evidence = evid_app,
       bidirectional = True,
       edge_type = py ''application_network'',
       edge_source = py ''application_connection'' \<rparr>"

text \<open>The dictionary \<open>section_nodes\<close> with its three fixed keys.\<close>

record section_nodes =
  basic_concepts :: "unified_node list"
  core_technologies :: "unified_node list"
  circuit_applications :: "unified_node list"

text \<open>
  \<open>_build_hierarchical_connections\<close> appends to \<open>unified_edges\<close> in three nested loops;
  the model returns the extended list.
\<close>

definition build_hierarchical_connections :: "section_nodes \<Rightarrow> unified_edge list \<Rightarrow> unified_edge list" where
  "build_hierarchical_connections sn unified_edges =
     unified_edges
     @ [enables_edge concept tech.
          concept \<leftarrow> basic_concepts sn, tech \<leftarrow> core_technologies sn,
          has_keyword_similarity concept tech float_0_2]
     @ [implements_edge tech app.
          tech \<leftarrow> core_technologies sn, app \<leftarrow> circuit_applications sn,
          has_keyword_similarity tech app float_0_2]
     @ [supports_edge concept app.
          concept \<leftarrow> basic_concepts sn, app \<leftarrow> circuit_applications sn,
          has_strong_keyword_similarity concept app]"

text \<open>\<open>_build_circuit_application_connections\<close>; its third argument is never read.\<close>

definition build_circuit_application_connections ::
    "unified_node list \<Rightarrow> unified_edge list \<Rightarrow> connection list \<Rightarrow> unified_edge list" where
  "build_circuit_application_connections apps unified_edges cross_connections =
     unified_edges
     @ [relates_edge app other_app.
          app \<leftarrow> apps, other_app \<leftarrow> apps,
          node_id app \<noteq> node_id other_app \<and> section_num app \<noteq> section_num other_app,
          has_keyword_similarity app other_app float_0_2]"

subsection \<open>\<open>_fuse_graphs\<close>\<close>

definition get_node_level :: "pystr \<Rightarrow> int" where
  "get_node_level t =
     (if t = py ''main_logic'' then 0
      else if t = py ''basic_concept'' then 1
      else if t = py ''core_technology'' then 2
      else if t = py ''circuit_application'' then 3
      else 1)"

text \<open>
  \<open>section_num.split('.')[0] if '.' in section_num else section_num\<close>: in both cases the
  text before the first full stop (U+002E).
\<close>

definition section_prefix :: "pystr \<Rightarrow> pystr" where
  "section_prefix s = (if 0x2E \<in> set s then takeWhile (\<lambda>c. c \<noteq> 0x2E) s else s)"

definition find_main_logic_node_for_section :: "unified_node list \<Rightarrow> pystr \<Rightarrow> unified_node option" where
  "find_main_logic_node_for_section main_logic_nodes sec =
     (case find (\<lambda>n. section_num n = sec) main_logic_nodes of
        Some n \<Rightarrow> Some n
      | None \<Rightarrow> find (\<lambda>n. prefix (section_prefix sec) (section_num n)) main_logic_nodes)"

definition main_unified_node :: "main_node \<Rightarrow> unified_node" where
  "main_unified_node n =
     \<lparr> node_id = dict_get (mn_id n) [],
       label = dict_get (mn_label n) [],
       node_type = py ''main_logic'',
       summary = dict_get (mn_summary n) [],
       difficulty = dict_get (mn_difficulty n) 3,
       section_num = dict_get (mn_section_num n) [],
       node_keywords = dict_get (mn_key_concepts n) [],
       formulas = [],
       applications = dict_get (mn_learning_objectives n) [],
       properties = [(py ''knowledge_layer'', PStr (dict_get (mn_knowledge_layer n) [])),
                     (py ''prerequisites'', PList (dict_get (mn_prerequisites n) []))],
       level = 0,
       node_source = py ''main_logic'' \<rparr>"

definition main_unified_edge :: "main_edge \<Rightarrow> unified_edge" where
  "main_unified_edge e =
     \<lparr> source_id = dict_get (me_source_id e) [],
       target_id = dict_get (me_target_id e) [],
       relationship = dict_get (me_relationship e) [],
       description = dict_get (me_description e) [],
       weight = dict_get (me_weight e) (1/2),
       evidence = dict_get (me_reasoning e) [],
       bidirectional = False,
       edge_type = py ''main_logic'',
       edge_source = py ''main_logic'' \<rparr>"

definition sub_unified_node :: "pystr \<Rightarrow> sub_node \<Rightarrow> unified_node" where
  "sub_unified_node sec n =
     \<lparr> node_id = dict_get (sn_id n) [],
       label = dict_get (sn_label n) [],
       node_type = dict_get (sn_node_type n) (py ''basic_concept''),
       summary = dict_get (sn_summary n) [],
       difficulty = dict_get (sn_difficulty n) 3,
       section_num = sec,
       node_keywords = dict_get (sn_keywords n) [],
       formulas = dict_get (sn_formulas n) [],
       applications = dict_get (sn_applications n) [],
       properties = dict_get (sn_properties n) [],
       level = get_node_level (dict_get (sn_node_type n) (py ''basic_concept'')),
       node_source = py ''sub_logic'' \<rparr>"

definition sub_unified_edge :: "sub_edge \<Rightarrow> unified_edge" where
  "sub_unified_edge e =
     \<lparr> source_id = dict_get (se_source_id e) [],
       target_id = dict_get (se_target_id e) [],
       relationship = dict_get (se_relationship e) [],
       description = dict_get (se_description e) [],
       weight = dict_get (se_weight e) (1/2),
       evidence = dict_get (se_evidence e) [],
       bidirectional = dict_get (se_bidirectional e) False,
       edge_type = py ''intra_section'',
       edge_source = py ''sub_logic'' \<rparr>"

definition connection_edge :: "connection \<Rightarrow> unified_edge" where
  "connection_edge c =
     \<lparr> source_id = dict_get (cn_source_id c) [],
       target_id = dict_get (cn_target_id c) [],
       relationship = dict_get (cn_connection_type c) (py ''relates_to''),
       description = dict_get (cn_description c) [],
       weight = dict_get (cn_connection_strength c) (1/2),
       evidence = dict_get (cn_technical_evidence c) [],
       bidirectional = False,
       edge_type = py ''inter_section'',
       edge_source = py ''cross_connection'' \<rparr>"

text \<open>The \<open>if / elif / elif\<close> that files a section's node under its tier.\<close>

definition classify_node :: "unified_node \<Rightarrow> section_nodes \<Rightarrow> section_nodes" where
  "classify_node n sn =
     (if node_type n = py ''basic_concept''
        then sn\<lparr> basic_concepts := basic_concepts sn @ [n] \<rparr>
      else if node_type n = py ''core_technology''
        then sn\<lparr> core_technologies := core_technologies sn @ [n] \<rparr>
      else if node_type n = py ''circuit_application''
        then sn\<lparr> circuit_applications := circuit_applications sn @ [n] \<rparr>
      else sn)"

text \<open>
  The state of the main loop of \<open>_fuse_graphs\<close> (step 3): the nodes and edges of the
  unified graph so far and the circuit applications collected over all sections.
\<close>

record fuse_state =
  fs_nodes :: "unified_node list"
  fs_edges :: "unified_edge list"
  fs_apps :: "unified_node list"

definition fuse_section :: "unified_node list \<Rightarrow> sub_logic_kg \<Rightarrow> fuse_state \<Rightarrow> fuse_state" where
  "fuse_section main_logic_nodes kg st =
     (let sec = dict_get (sk_section_num kg) [];
          new_nodes = map (sub_unified_node sec) (dict_get (sk_nodes kg) []);
          sn = fold classify_node new_nodes
                 \<lparr> basic_concepts = [], core_technologies = [], circuit_applications = [] \<rparr>;
          main_edges =
            (case find_main_logic_node_for_section main_logic_nodes sec of
               None \<Rightarrow> []
             | Some main_node \<Rightarrow>
                 map (contains_application_edge sec main_node) (circuit_applications sn))
      in \<lparr> fs_nodes = fs_nodes st @ new_nodes,
           fs_edges = build_hierarchical_connections sn (fs_edges st @ main_edges),
           fs_apps = fs_apps st @ circuit_applications sn \<rparr>)"

definition count_where :: "('a \<Rightarrow> bool) \<Rightarrow> 'a list \<Rightarrow> nat" where
  "count_where P xs = length (filter P xs)"

definition fuse_graphs :: "main_logic_kg \<Rightarrow> sub_logic_kg list \<Rightarrow> connection list \<Rightarrow> unified_kg" where
  "fuse_graphs main_kg sub_logic_kgs cross_connections =
     (let main_logic_nodes = map main_unified_node (dict_get (mk_nodes main_kg) []);
          main_logic_edges = map main_unified_edge (dict_get (mk_edges main_kg) []);
          st = fold (fuse_section main_logic_nodes) sub_logic_kgs
                 \<lparr> fs_nodes = main_logic_nodes, fs_edges = main_logic_edges, fs_apps = [] \<rparr>;
          edges4 = fs_edges st
                   @ concat (map (\<lambda>kg. map sub_unified_edge (dict_get (sk_edges kg) []))
                                 sub_logic_kgs);
          edges5 = build_circuit_application_connections (fs_apps st) edges4 cross_connections;
          unified_edges = edges5
                   @ map connection_edge
                       (filter (\<lambda>c. dict_get (cn_has_connection c) False) cross_connections);
          unified_nodes = fs_nodes st
      in \<lparr> nodes = unified_nodes,
           edges = unified_edges,
           stats =
             \<lparr> stat_total_nodes = length unified_nodes,
               stat_total_edges = length unified_edges,
               stat_main_logic_nodes =
                 count_where (\<lambda>n. node_type n = py ''main_logic'') unified_nodes,
               stat_basic_concept_nodes =
                 count_where (\<lambda>n. node_type n = py ''basic_concept'') unified_nodes,
               stat_core_technology_nodes =
                 count_where (\<lambda>n. node_type n = py ''core_technology'') unified_nodes,
               stat_circuit_application_nodes =
                 count_where (\<lambda>n. node_type n = py ''circuit_application'') unified_nodes,
               stat_cross_section_edges =
                 count_where (\<lambda>e. edge_type e = py ''inter_section'') unified_edges \<rparr> \<rparr>)"

text \<open>
  \<open>fuse_knowledge_graphs\<close>, the public entry: it returns the empty dictionary (here
  \<open>None\<close>) when the main-logic graph or the list of section graphs is missing or empty.
  A loader that fails returns \<open>{}\<close> or \<open>[]\<close>, which the same tests catch.
  \<open>mk_other_keys\<close> lists the keys of the main-logic document other than \<open>nodes\<close> and
  \<open>edges\<close> (its title, its time stamp); the document is \<open>{}\<close> when it has no key at all.
\<close>

definition main_logic_kg_empty :: "main_logic_kg \<Rightarrow> bool" where
  "main_logic_kg_empty m \<longleftrightarrow> mk_nodes m = None \<and> mk_edges m = None \<and> mk_other_keys m = []"

definition fuse_knowledge_graphs ::
    "main_logic_kg \<Rightarrow> sub_logic_kg list \<Rightarrow> connection list \<Rightarrow> unified_kg option" where
  "fuse_knowledge_graphs main_kg sub_logic_kgs cross_connections =
     (if main_logic_kg_empty main_kg then None
      else if sub_logic_kgs = [] then None
      else Some (optimize_unified_kg (fuse_graphs main_kg sub_logic_kgs cross_connections)))"

section \<open>Section extraction (sub\_logic\_generator.py)\<close>

subsection \<open>String operations\<close>

text \<open>
  \<open>str.strip()\<close> removes the characters for which \<open>str.isspace()\<close> holds: the ASCII
  controls U+0009 to U+000D and U+001C to U+001F, the space, and the Unicode separators.
\<close>

definition py_isspace :: "nat \<Rightarrow> bool" where
  "py_isspace c \<longleftrightarrow>
     (0x9 \<le> c \<and> c \<le> 0xD) \<or> (0x1C \<le> c \<and> c \<le> 0x20) \<or> c = 0x85 \<or> c = 0xA0
     \<or> c = 0x1680 \<or> (0x2000 \<le> c \<and> c \<le> 0x200A) \<or> c = 0x2028 \<or> c = 0x2029
     \<or> c = 0x202F \<or> c = 0x205F \<or> c = 0x3000"

definition py_strip :: "pystr \<Rightarrow> pystr" where
  "py_strip s = rev (dropWhile py_isspace (rev (dropWhile py_isspace s)))"

text \<open>
  \<open>s.split(sep)\<close> for a separator of one or more characters: the pieces between the
  occurrences of \<open>sep\<close>, found from left to right without overlap.  \<open>cur\<close> is the piece
  being read.  (Python raises on an empty separator; the source never passes one.)
\<close>

fun split_from :: "pystr \<Rightarrow> pystr \<Rightarrow> pystr \<Rightarrow> pystr list" where
  "split_from sep cur [] = [cur]"
| "split_from sep cur (c # cs) =
     (if sep \<noteq> [] \<and> prefix sep (c # cs)
      then cur # split_from sep [] (drop (length sep) (c # cs))
      else split_from sep (cur @ [c]) cs)"

definition py_split :: "pystr \<Rightarrow> pystr \<Rightarrow> pystr list" where
  "py_split s sep = split_from sep [] s"

text \<open>
  \<open>str.lower()\<close> on the ASCII letters.  The keywords it is compared with are CJK
  ideographs, which have no case, and two ASCII words with capitals.
\<close>

definition py_lower :: "pystr \<Rightarrow> pystr" where
  "py_lower s = map (\<lambda>c. if 0x41 \<le> c \<and> c \<le> 0x5A then c + 0x20 else c) s"

text \<open>\<open>str(n)\<close> of a non-negative integer: its decimal digits.\<close>

fun py_str_nat :: "nat \<Rightarrow> pystr" where
  "py_str_nat n = (if n < 10 then [0x30 + n] else py_str_nat (n div 10) @ [0x30 + n mod 10])"

subsection \<open>Sections\<close>

record doc_section =
  sec_section_num :: pystr
  sec_title :: pystr
  sec_start_line :: int
  sec_end_line :: int
  sec_content :: pystr

subsection \<open>\<open>_rule_based_extraction\<close>\<close>

text \<open>
  The table \<open>circuit_terms\<close>, in the insertion order of the dictionary.  Its five keys are
  \<open>basic_concept\<close>, \<open>core_technology\<close>, \<open>circuit_application\<close>, \<open>design_method\<close> and
  \<open>analysis_tool\<close>; the last two keywords of the last row are \<open>SPICE\<close> and \<open>Matlab\<close>.
\<close>

definition circuit_terms :: "(pystr \<times> pystr list) list" where
  "circuit_terms =
     [(py ''basic_concept'',
         [[0x5B9A, 0x4E49], [0x539F, 0x7406], [0x5B9A, 0x5F8B], [0x516C, 0x5F0F],
          [0x6982, 0x5FF5], [0x7406, 0x8BBA], [0x57FA, 0x7840]]),
      (py ''core_technology'',
         [[0x65B9, 0x6CD5], [0x6280, 0x672F], [0x7B97, 0x6CD5], [0x5206, 0x6790],
          [0x8BBE, 0x8BA1, 0x6280, 0x5DE7], [0x5B9E, 0x73B0, 0x65B9, 0x6CD5]]),
      (py ''circuit_application'',
         [[0x7535, 0x8DEF], [0x653E, 0x5927, 0x5668], [0x6EE4, 0x6CE2, 0x5668],
          [0x632F, 0x8361, 0x5668], [0x6BD4, 0x8F83, 0x5668], [0x5F00, 0x5173],
          [0x53D8, 0x6362, 0x5668], [0x5E94, 0x7528], [0x5B9E, 0x4F8B], [0x8BBE, 0x8BA1]]),
      (py ''design_method'',
         [[0x6D41, 0x7A0B], [0x6B65, 0x9AA4], [0x51C6, 0x5219], [0x4F18, 0x5316],
          [0x8BBE, 0x8BA1, 0x65B9, 0x6CD5]]),
      (py ''analysis_tool'',
         [[0x4EFF, 0x771F], [0x6D4B, 0x8BD5], [0x5DE5, 0x5177], [0x8F6F, 0x4EF6],
          py ''SPICE'', py ''Matlab''])]"

text \<open>\<open>sum(1 for keyword in keywords if keyword in para.lower())\<close>\<close>

definition keyword_score :: "pystr list \<Rightarrow> pystr \<Rightarrow> nat" where
  "keyword_score kws para = length (filter (\<lambda>keyword. sublist keyword (py_lower para)) kws)"

definition type_scores :: "pystr \<Rightarrow> (pystr \<times> nat) list" where
  "type_scores para = map (\<lambda>(type_name, kws). (type_name, keyword_score kws para)) circuit_terms"

text \<open>
  \<open>max(type_scores, key=type_scores.get)\<close>: Python's \<open>max\<close> walks the keys in insertion
  order and replaces the running best only by a strictly larger score, so the first key
  with the largest score is returned.
\<close>

fun max_key_from :: "pystr \<times> nat \<Rightarrow> (pystr \<times> nat) list \<Rightarrow> pystr \<times> nat" where
  "max_key_from best [] = best"
| "max_key_from best (x # xs) =
     (if snd best < snd x then max_key_from x xs else max_key_from best xs)"

definition determine_node_type :: "pystr \<Rightarrow> pystr" where
  "determine_node_type para =
     (case type_scores para of
        [] \<Rightarrow> py ''basic_concept''
      | x # xs \<Rightarrow>
          (let best = max_key_from x xs
           in if snd best = 0 then py ''basic_concept'' else fst best))"

definition ellipsis :: pystr where
  "ellipsis = py ''...''"

definition fallback_node :: "pystr \<Rightarrow> pystr \<Rightarrow> nat \<Rightarrow> sub_node" where
  "fallback_node sec para node_no =
     (let t = determine_node_type para;
          sentences = py_split para [0x3002];
          s0 = hd sentences
      in \<lparr> sn_id = Some (sec @ py ''_'' @ t @ py ''_'' @ py_str_nat node_no),
           sn_label = Some (if length s0 > 50 then take 50 s0 @ ellipsis else s0),
           sn_node_type = Some t,
           sn_summary = Some (if length para > 300 then take 300 para @ ellipsis else para),
           sn_difficulty = Some 3,
           sn_keywords = Some [],
           sn_formulas = Some [],
           sn_applications = Some [],
           sn_properties = None,
           sn_related_sections = Some [sec],
           sn_prerequisites = Some (PList []),
           sn_derived_concepts = Some [],
           sn_practical_examples = Some [],
           sn_technical_details = Some (take 200 para) \<rparr>)"

text \<open>
  The loop over \<open>paragraphs[:10]\<close>: a paragraph shorter than 50 characters is skipped
  without using up a node number.
\<close>

fun fallback_nodes_loop :: "pystr \<Rightarrow> pystr list \<Rightarrow> nat \<Rightarrow> sub_node list \<Rightarrow> sub_node list" where
  "fallback_nodes_loop sec [] node_no acc = acc"
| "fallback_nodes_loop sec (para # ps) node_no acc =
     (if length para < 50 then fallback_nodes_loop sec ps node_no acc
      else fallback_nodes_loop sec ps (node_no + 1) (acc @ [fallback_node sec para node_no]))"

text \<open>
  The dictionary an extraction returns.  \<open>an_other_keys\<close> lists any further keys of a
  service reply (such as \<open>section_analysis\<close>); they only matter for its truth value.
\<close>

record analysis =
  an_basic_concepts :: "sub_node list option"
  an_core_technologies :: "sub_node list option"
  an_circuit_applications :: "sub_node list option"
  an_relationships :: "sub_edge list option"
  an_other_keys :: "pystr list"

definition paragraphs_of :: "pystr \<Rightarrow> pystr list" where
  "paragraphs_of content_text =
     map py_strip (filter (\<lambda>p. py_strip p \<noteq> []) (py_split content_text [0xA, 0xA]))"

definition rule_based_extraction :: "pystr \<Rightarrow> pystr \<Rightarrow> pystr \<Rightarrow> analysis" where
  "rule_based_extraction sec title content_text =
     (let paragraphs = paragraphs_of content_text;
          nds = fallback_nodes_loop sec (take 10 paragraphs) 1 []
      in \<lparr> an_basic_concepts =
             Some (filter (\<lambda>n. sn_node_type n = Some (py ''basic_concept'')) nds),
           an_core_technologies =
             Some (filter (\<lambda>n. sn_node_type n = Some (py ''core_technology'')) nds),
           an_circuit_applications =
             Some (filter (\<lambda>n. sn_node_type n = Some (py ''circuit_application'')) nds),
           an_relationships = Some [],
           an_other_keys = [] \<rparr>)"

subsection \<open>The extraction call and its fallback\<close>

text \<open>
  What one request to the semantic service gives: the client raises, the reply is not
  JSON, or the reply parses to a dictionary.
\<close>

datatype service_reply = TransportError | MalformedJson | Parsed analysis

text \<open>
  \<open>_call_deepseek_with_cot_triplet_extraction\<close>: both \<open>except\<close> clauses return the
  rule-based extraction, so for a well-formed section the call never raises.
\<close>

definition call_deepseek_with_cot_triplet_extraction :: "service_reply \<Rightarrow> doc_section \<Rightarrow> analysis" where
  "call_deepseek_with_cot_triplet_extraction reply s =
     (case reply of
        Parsed kg_data \<Rightarrow> kg_data
      | MalformedJson \<Rightarrow> rule_based_extraction (sec_section_num s) (sec_title s) (sec_content s)
      | TransportError \<Rightarrow> rule_based_extraction (sec_section_num s) (sec_title s) (sec_content s))"

subsection \<open>\<open>_build_kg_from_analysis\<close> and \<open>_is_valid_kg\<close>\<close>

definition prerequisite_knowledge :: "sub_node \<Rightarrow> pyval" where
  "prerequisite_knowledge c =
     dict_get (map_of (dict_get (sn_properties c) []) (py ''prerequisite_knowledge'')) (PList [])"

definition kg_node :: "pystr \<Rightarrow> int \<Rightarrow> pyval \<Rightarrow> sub_node \<Rightarrow> sub_node" where
  "kg_node t default_difficulty prereq c =
     \<lparr> sn_id = Some (dict_get (sn_id c) []),
       sn_label = Some (dict_get (sn_label c) []),
       sn_node_type = Some t,
       sn_summary = Some (dict_get (sn_summary c) []),
       sn_difficulty = Some (dict_get (sn_difficulty c) default_difficulty),
       sn_keywords = Some (dict_get (sn_keywords c) []),
       sn_formulas = Some (dict_get (sn_formulas c) []),
       sn_applications = Some (dict_get (sn_applications c) []),
       sn_properties = None,
       sn_related_sections = Some [],
       sn_prerequisites = Some prereq,
       sn_derived_concepts = Some [],
       sn_practical_examples = Some [],
       sn_technical_details = Some (take 200 (dict_get (sn_summary c) [])) \<rparr>"

definition kg_edge :: "sub_edge \<Rightarrow> sub_edge" where
  "kg_edge rel =
     \<lparr> se_source_id = Some (dict_get (se_source_id rel) []),
       se_target_id = Some (dict_get (se_target_id rel) []),
       se_relationship = Some (dict_get (se_relationship rel) (py ''relates_to'')),
       se_description = Some (dict_get (se_description rel) []),
       se_weight = Some (dict_get (se_weight rel) (1/2)),
       se_evidence = Some (dict_get (se_evidence rel) []),
       se_bidirectional = Some (dict_get (se_bidirectional rel) False) \<rparr>"

text \<open>
  \<open>_build_kg_from_analysis\<close>, with the three keys \<open>section_num\<close>, \<open>title\<close> and
  \<open>extraction_timestamp\<close> that \<open>_extract_concurrent\<close> adds (the time stamp is left out).
\<close>

definition build_kg_from_analysis :: "analysis \<Rightarrow> pystr \<Rightarrow> pystr \<Rightarrow> sub_logic_kg" where
  "build_kg_from_analysis a sec title =
     \<lparr> sk_section_num = Some sec,
       sk_title = Some title,
       sk_nodes = Some
         (map (\<lambda>c. kg_node (py ''basic_concept'') 2 (prerequisite_knowledge c) c)
              (dict_get (an_basic_concepts a) [])
          @ map (kg_node (py ''core_technology'') 3 (PList []))
              (dict_get (an_core_technologies a) [])
          @ map (kg_node (py ''circuit_application'') 4 (PList []))
              (dict_get (an_circuit_applications a) [])),
       sk_edges = Some (map kg_edge (dict_get (an_relationships a) [])) \<rparr>"

definition is_valid_kg :: "sub_logic_kg \<Rightarrow> bool" where
  "is_valid_kg kg =
     (if dict_get (sk_nodes kg) [] = [] then False
      else if length (dict_get (sk_nodes kg) []) < 2 then False
      else if \<exists>n \<in> set (dict_get (sk_nodes kg) []).
                dict_get (sn_id n) [] = [] \<or> dict_get (sn_label n) [] = [] then False
      else True)"

definition validate_sub_logic_kgs :: "sub_logic_kg list \<Rightarrow> sub_logic_kg list" where
  "validate_sub_logic_kgs kgs = filter is_valid_kg kgs"

text \<open>\<open>_load_sections_data\<close>: sections of at most 200 characters are left out.\<close>

definition load_sections_data :: "doc_section list \<Rightarrow> doc_section list" where
  "load_sections_data sections = filter (\<lambda>s. length (sec_content s) > 200) sections"

subsection \<open>Retrying one section and collecting a batch\<close>

text \<open>A call either raises an exception or returns a value.\<close>

datatype 'a outcome = Raises | Returns 'a

definition empty_analysis :: analysis where
  "empty_analysis =
     \<lparr> an_basic_concepts = None, an_core_technologies = None, an_circuit_applications = None,
       an_relationships = None, an_other_keys = [] \<rparr>"

text \<open>The truth value of the dictionary: false only for \<open>{}\<close>.\<close>

definition analysis_truthy :: "analysis \<Rightarrow> bool" where
  "analysis_truthy a \<longleftrightarrow>
     an_basic_concepts a \<noteq> None \<or> an_core_technologies a \<noteq> None
     \<or> an_circuit_applications a \<noteq> None \<or> an_relationships a \<noteq> None
     \<or> an_other_keys a \<noteq> []"

text \<open>
  The retry loop of \<open>process_single_section\<close>, \<open>for attempt in range(max_retries)\<close>.
  \<open>worker attempt\<close> is what the call made in attempt number \<open>attempt\<close> does.  The first
  argument counts the attempts still to come; the first component of the result is the
  number of calls made, which the source does not return and the model adds.
\<close>

fun process_attempts :: "nat \<Rightarrow> nat \<Rightarrow> (nat \<Rightarrow> analysis outcome) \<Rightarrow> nat \<times> analysis \<times> bool" where
  "process_attempts 0 attempt worker = (attempt, empty_analysis, False)"
| "process_attempts (Suc remaining) attempt worker =
     (case worker attempt of
        Returns analysis_data \<Rightarrow>
          if analysis_truthy analysis_data then (Suc attempt, analysis_data, True)
          else process_attempts remaining (Suc attempt) worker
      | Raises \<Rightarrow> process_attempts remaining (Suc attempt) worker)"

definition process_single_section ::
    "nat \<Rightarrow> (doc_section \<Rightarrow> nat \<Rightarrow> analysis outcome) \<Rightarrow> doc_section \<Rightarrow> nat \<times> analysis \<times> bool" where
  "process_single_section max_retries worker s = process_attempts max_retries 0 (worker s)"

text \<open>
  The shared accumulators of \<open>_extract_concurrent\<close>: the list of results and
  \<open>self.failed_sections\<close>.
\<close>

record extract_state =
  ex_results :: "sub_logic_kg list"
  ex_failed :: "pystr list"

text \<open>
  The body of the \<open>as_completed\<close> loop for one finished task.  The graph built by
  \<open>_build_kg_from_analysis\<close> always has the keys \<open>nodes\<close> and \<open>edges\<close>, so the test
  \<open>if kg_data\<close> succeeds.
\<close>

definition collect_section_result :: "doc_section \<Rightarrow> analysis \<times> bool \<Rightarrow> extract_state \<Rightarrow> extract_state" where
  "collect_section_result section_data r st =
     (case r of (analysis_data, success) \<Rightarrow>
        if success \<and> analysis_truthy analysis_data
        then st\<lparr> ex_results := ex_results st
                    @ [build_kg_from_analysis analysis_data (sec_section_num section_data)
                         (sec_title section_data)] \<rparr>
        else st\<lparr> ex_failed := ex_failed st @ [sec_section_num section_data] \<rparr>)"

text \<open>
  \<open>_extract_concurrent\<close>.  The tasks are independent; \<open>sections\<close> lists them in the order
  in which they complete, which is some permutation of the order of submission.
\<close>

definition extract_concurrent ::
    "nat \<Rightarrow> (doc_section \<Rightarrow> nat \<Rightarrow> analysis outcome) \<Rightarrow> doc_section list \<Rightarrow> extract_state \<Rightarrow> extract_state" where
  "extract_concurrent max_retries worker sections st =
     fold (\<lambda>s. collect_section_result s (snd (process_single_section max_retries worker s)))
          sections st"

text \<open>
  The worker of the section workload: \<open>service s attempt\<close> is the reply of the semantic
  service to the request for section \<open>s\<close> in attempt \<open>attempt\<close>.
\<close>

definition section_worker ::
    "(doc_section \<Rightarrow> nat \<Rightarrow> service_reply) \<Rightarrow> doc_section \<Rightarrow> nat \<Rightarrow> analysis outcome" where
  "section_worker service s attempt =
     Returns (call_deepseek_with_cot_triplet_extraction (service s attempt) s)"

definition sub_logic_max_retries :: nat where
  "sub_logic_max_retries = 3"

text \<open>
  \<open>generate_sub_logic\<close> on the sections read from disk: filter, extract, validate.  The
  result is the list of validated graphs and the list of failed section numbers.
\<close>

definition generate_sub_logic ::
    "(doc_section \<Rightarrow> nat \<Rightarrow> service_reply) \<Rightarrow> doc_section list \<Rightarrow> sub_logic_kg list \<times> pystr list" where
  "generate_sub_logic service sections =
     (let st = extract_concurrent sub_logic_max_retries (section_worker service)
                 (load_sections_data sections) \<lparr> ex_results = [], ex_failed = [] \<rparr>
      in (validate_sub_logic_kgs (ex_results st), ex_failed st))"

section \<open>Connection analysis (connection\_analyzer.py, utils.py)\<close>

subsection \<open>\<open>retry_on_failure\<close>\<close>

text \<open>
  The wrapper made by the decorator: \<open>func attempt\<close> is what the decorated function does
  when called in attempt number \<open>attempt\<close>.  The wrapper re-raises the exception of the last
  attempt and returns \<open>None\<close> when the loop body never runs.  The first component counts
  the calls.
\<close>

fun retry_attempts :: "nat \<Rightarrow> nat \<Rightarrow> (nat \<Rightarrow> 'a outcome) \<Rightarrow> nat \<times> 'a option outcome" where
  "retry_attempts 0 attempt func = (attempt, Returns None)"
| "retry_attempts (Suc remaining) attempt func =
     (case func attempt of
        Returns v \<Rightarrow> (Suc attempt, Returns (Some v))
      | Raises \<Rightarrow>
          if remaining = 0 then (Suc attempt, Raises)
          else retry_attempts remaining (Suc attempt) func)"

definition retry_on_failure :: "nat \<Rightarrow> (nat \<Rightarrow> 'a outcome) \<Rightarrow> nat \<times> 'a option outcome" where
  "retry_on_failure max_retries func = retry_attempts max_retries 0 func"

subsection \<open>Circuit applications and node pairs\<close>

record app_node =
  app_id :: pystr
  app_label :: pystr
  app_summary :: pystr
  app_keywords :: "pystr list"
  app_applications :: "pystr list"
  app_section_num :: pystr
  app_section_title :: pystr
  app_difficulty :: int

definition extract_circuit_applications :: "sub_logic_kg list \<Rightarrow> app_node list" where
  "extract_circuit_applications sub_logic_data =
     concat (map (\<lambda>kg.
       map (\<lambda>n. \<lparr> app_id = dict_get (sn_id n) [],
                   app_label = dict_get (sn_label n) [],
                   app_summary = dict_get (sn_summary n) [],
                   app_keywords = dict_get (sn_keywords n) [],
                   app_applications = dict_get (sn_applications n) [],
                   app_section_num = dict_get (sk_section_num kg) [],
                   app_section_title = dict_get (sk_title kg) [],
                   app_difficulty = dict_get (sn_difficulty n) 3 \<rparr>)
           (filter (\<lambda>n. sn_node_type n = Some (py ''circuit_application''))
                   (dict_get (sk_nodes kg) [])))
       sub_logic_data)"

text \<open>
  The double loop of \<open>_generate_node_pairs\<close>: each node with every later node of another
  section.
\<close>

fun cross_section_pairs :: "app_node list \<Rightarrow> (app_node \<times> app_node) list" where
  "cross_section_pairs [] = []"
| "cross_section_pairs (app1 # rest) =
     map (\<lambda>app2. (app1, app2)) (filter (\<lambda>app2. app_section_num app1 \<noteq> app_section_num app2) rest)
     @ cross_section_pairs rest"

text \<open>
  \<open>random.sample(population, k)\<close> is library code.  It raises \<open>ValueError\<close> when the
  population has fewer than \<open>k\<close> elements; otherwise it copies the population into a pool
  and, \<open>k\<close> times, draws a position \<open>j\<close> below the size of the pool, takes \<open>pool[j]\<close> and
  moves the last element of the pool to position \<open>j\<close>, the pool shrinking by one.  (For a
  large population it draws positions until it finds a new one, with the same outcome:
  \<open>k\<close> elements from distinct positions.)  \<open>draws i\<close> is the random number of step \<open>i\<close>; it
  is reduced modulo the size of the pool, so every sequence of draws is covered.
\<close>

fun sample_loop :: "nat \<Rightarrow> nat \<Rightarrow> (nat \<Rightarrow> nat) \<Rightarrow> 'a list \<Rightarrow> 'a list \<Rightarrow> 'a list" where
  "sample_loop 0 i draws pool result = result"
| "sample_loop (Suc k) i draws pool result =
     (let j = draws i mod length pool
      in sample_loop k (Suc i) draws (butlast (pool[j := last pool])) (result @ [pool ! j]))"

definition random_sample :: "'a list \<Rightarrow> nat \<Rightarrow> (nat \<Rightarrow> nat) \<Rightarrow> py_error + 'a list" where
  "random_sample population k draws =
     (if length population < k then Inl ValueError
      else Inr (sample_loop k 0 draws population []))"

definition generate_node_pairs ::
    "app_node list \<Rightarrow> (nat \<Rightarrow> nat) \<Rightarrow> py_error + (app_node \<times> app_node) list" where
  "generate_node_pairs circuit_apps draws =
     (let node_pairs = cross_section_pairs circuit_apps
      in if length node_pairs > 1000 then random_sample node_pairs 1000 draws
         else Inr node_pairs)"

subsection \<open>Retrying one pair and collecting a batch\<close>

text \<open>
  The retry loop of \<open>analyze_single_pair\<close>.  A reply that returns ends the loop at once,
  with the connection when \<open>has_connection\<close> is true and with \<open>None\<close> otherwise (a
  dictionary that holds \<open>has_connection\<close> is not empty); only an exception leads to the
  next attempt.  When the attempts are used up the function returns \<open>None\<close>.
\<close>

fun analyze_attempts :: "nat \<Rightarrow> nat \<Rightarrow> (nat \<Rightarrow> connection outcome) \<Rightarrow> nat \<times> connection option" where
  "analyze_attempts 0 attempt worker = (attempt, None)"
| "analyze_attempts (Suc remaining) attempt worker =
     (case worker attempt of
        Returns c \<Rightarrow>
          (Suc attempt, if dict_get (cn_has_connection c) False then Some c else None)
      | Raises \<Rightarrow> analyze_attempts remaining (Suc attempt) worker)"

definition analyze_single_pair ::
    "nat \<Rightarrow> (app_node \<times> app_node \<Rightarrow> nat \<Rightarrow> connection outcome) \<Rightarrow> app_node \<times> app_node
      \<Rightarrow> nat \<times> connection option" where
  "analyze_single_pair max_retries worker pair = analyze_attempts max_retries 0 (worker pair)"

record analyze_state =
  an_results :: "connection list"
  an_failed_pairs :: "pystr list"

text \<open>
  The body of the \<open>as_completed\<close> loop of \<open>_analyze_concurrent\<close> for one finished task:
  \<open>future.result()\<close> either raises or returns the task's value.
\<close>

definition collect_pair_result ::
    "app_node \<times> app_node \<Rightarrow> connection option outcome \<Rightarrow> analyze_state \<Rightarrow> analyze_state" where
  "collect_pair_result pair r st =
     (case r of
        Returns None \<Rightarrow> st
      | Returns (Some c) \<Rightarrow> st\<lparr> an_results := an_results st @ [c] \<rparr>
      | Raises \<Rightarrow>
          st\<lparr> an_failed_pairs := an_failed_pairs st
                 @ [app_id (fst pair) @ py ''-'' @ app_id (snd pair)] \<rparr>)"

text \<open>
  \<open>_analyze_concurrent\<close>, the pairs listed in their order of completion.  The task function
  \<open>analyze_single_pair\<close> catches every exception of its worker, so the future always
  returns.
\<close>

definition analyze_concurrent ::
    "nat \<Rightarrow> (app_node \<times> app_node \<Rightarrow> nat \<Rightarrow> connection outcome) \<Rightarrow> (app_node \<times> app_node) list
      \<Rightarrow> analyze_state \<Rightarrow> analyze_state" where
  "analyze_concurrent max_retries worker node_pairs st =
     fold (\<lambda>pair. collect_pair_result pair
                    (Returns (snd (analyze_single_pair max_retries worker pair))))
          node_pairs st"

section \<open>Section spans (document\_splitter.py)\<close>

text \<open>
  One reconciliation match, as \<open>_match_toc_with_content\<close> stores it.  The line number
  comes from the service's reply and is a Python integer; heading lines are numbered from 1.
\<close>

record section_match =
  toc_section_num :: pystr
  toc_title :: pystr
  content_line_num :: int
  content_section_num :: pystr
  content_title :: pystr
  confidence :: rat







section \<open>Reference notions used in the statements\<close>




text \<open>
  Every edge of the graph starts and ends at the id of one of its nodes (the property
  the specification states for the fused graph).
\<close>

definition endpoints_exist :: "unified_kg \<Rightarrow> bool" where
  "endpoints_exist kg =
     list_all (\<lambda>e. source_id e \<in> set (map node_id (nodes kg))
                  \<and> target_id e \<in> set (map node_id (nodes kg))) (edges kg)"

text \<open>
  The end line of each span as the loop computes it: one less than the next match's line,
  and the number of lines of the document for the last match.
\<close>

fun span_ends :: "nat \<Rightarrow> section_match list \<Rightarrow> int list" where
  "span_ends n [] = []"
| "span_ends n [m] = [int n]"
| "span_ends n (m # m' # ms) = (content_line_num m' - 1) # span_ends n (m' # ms)"


text \<open>
  The id of a main-logic node and the key of a main-logic edge as \<open>_fuse_graphs\<close> reads
  them, an absent key counting as the empty string.
\<close>

definition main_node_id :: "main_node \<Rightarrow> pystr" where
  "main_node_id n = dict_get (mn_id n) []"

definition main_edge_key :: "main_edge \<Rightarrow> pystr \<times> pystr \<times> pystr" where
  "main_edge_key e =
     (dict_get (me_source_id e) [], dict_get (me_target_id e) [], dict_get (me_relationship e) [])"

text \<open>
  The cross-section pairs of a list of nodes by position: for every two positions
  \<open>i < j\<close> whose nodes lie in different sections, the pair of the two nodes, once.
\<close>

definition indexed_cross_pairs :: "app_node list \<Rightarrow> (app_node \<times> app_node) list" where
  "indexed_cross_pairs apps =
     concat (map (\<lambda>i. map (\<lambda>j. (apps ! i, apps ! j))
                          (filter (\<lambda>j. app_section_num (apps ! i) \<noteq> app_section_num (apps ! j))
                                  [Suc i..<length apps]))
                 [0..<length apps])"

text \<open>The three lists of a section without the nodes that have no keyword.\<close>

definition with_keywords :: "section_nodes \<Rightarrow> section_nodes" where
  "with_keywords sn =
     \<lparr> basic_concepts = filter (\<lambda>n. node_keywords n \<noteq> []) (basic_concepts sn),
       core_technologies = filter (\<lambda>n. node_keywords n \<noteq> []) (core_technologies sn),
       circuit_applications = filter (\<lambda>n. node_keywords n \<noteq> []) (circuit_applications sn) \<rparr>"

section \<open>Concrete inputs\<close>

text \<open>
  A main-logic graph of one chapter with an edge to a chapter \<open>ch2\<close> that has no node,
  and a section graph without nodes.
\<close>

definition example_main_kg :: main_logic_kg where
  "example_main_kg =
     \<lparr> mk_nodes = Some
         [\<lparr> mn_id = Some (py ''ch1''), mn_label = Some (py ''Amplifiers''), mn_summary = None,
            mn_difficulty = None, mn_section_num = Some (py ''1''), mn_key_concepts = None,
            mn_learning_objectives = None, mn_knowledge_layer = None,
            mn_prerequisites = None \<rparr>],
       mk_edges = Some
         [\<lparr> me_source_id = Some (py ''ch1''), me_target_id = Some (py ''ch2''),
            me_relationship = Some (py ''leads_to''), me_description = None,
            me_weight = None, me_reasoning = None \<rparr>],
       mk_other_keys = [py ''title''] \<rparr>"

definition example_sub_kg :: sub_logic_kg where
  "example_sub_kg =
     \<lparr> sk_section_num = Some (py ''1.1''), sk_title = Some (py ''Gain''),
       sk_nodes = Some [], sk_edges = Some [] \<rparr>"





text \<open>A main-logic graph whose two chapter nodes carry the same id.\<close>

definition duplicate_main_kg :: main_logic_kg where
  "duplicate_main_kg =
     \<lparr> mk_nodes = Some
         [\<lparr> mn_id = Some (py ''ch1''), mn_label = Some (py ''Amplifiers''), mn_summary = None,
            mn_difficulty = None, mn_section_num = Some (py ''1''), mn_key_concepts = None,
            mn_learning_objectives = None, mn_knowledge_layer = None,
            mn_prerequisites = None \<rparr>,
          \<lparr> mn_id = Some (py ''ch1''), mn_label = Some (py ''Filters''), mn_summary = None,
            mn_difficulty = None, mn_section_num = Some (py ''2''), mn_key_concepts = None,
            mn_learning_objectives = None, mn_knowledge_layer = None,
            mn_prerequisites = None \<rparr>],
       mk_edges = Some [],
       mk_other_keys = [py ''title''] \<rparr>"



section \<open>Deduplication: first occurrence wins\<close>

text \<open>A key-indexed first-occurrence filter, the common shape of both loops.\<close>

fun first_occ :: "('a \<Rightarrow> 'k) \<Rightarrow> 'k set \<Rightarrow> 'a list \<Rightarrow> 'a list" where
  "first_occ k seen [] = []"
| "first_occ k seen (x # xs) =
     (if k x \<notin> seen then x # first_occ k (insert (k x) seen) xs else first_occ k seen xs)"

lemma unique_nodes_loop_first_occ:
  "unique_nodes_loop ns seen acc = acc @ first_occ node_id seen ns"
  by (induction ns seen acc rule: unique_nodes_loop.induct) simp_all

lemma unique_edges_loop_first_occ:
  "unique_edges_loop es seen acc = acc @ first_occ edge_key seen es"
  by (induction es seen acc rule: unique_edges_loop.induct) simp_all

lemma first_occ_keys: "k ` set (first_occ k seen xs) = k ` set xs - seen"
  by (induction xs arbitrary: seen) auto

lemma first_occ_subset: "set (first_occ k seen xs) \<subseteq> set xs"
  by (induction xs arbitrary: seen) auto

lemma first_occ_distinct: "distinct (map k (first_occ k seen xs))"
proof (induction xs arbitrary: seen)
  case Nil
  show ?case by simp
next
  case (Cons x xs)
  have "k x \<notin> k ` set (first_occ k (insert (k x) seen) xs)"
    unfolding first_occ_keys by simp
  with Cons show ?case by simp
qed

lemma first_occ_fixed:
  "distinct (map k xs) \<Longrightarrow> k ` set xs \<inter> seen = {} \<Longrightarrow> first_occ k seen xs = xs"
  by (induction xs arbitrary: seen) auto

lemma first_occ_idem: "first_occ k {} (first_occ k seen xs) = first_occ k seen xs"
  by (rule first_occ_fixed) (simp_all add: first_occ_distinct)

lemma optimize_nodes: "nodes (optimize_unified_kg kg) = first_occ node_id {} (nodes kg)"
  by (simp add: optimize_unified_kg_def Let_def unique_nodes_loop_first_occ)

lemma optimize_edges: "edges (optimize_unified_kg kg) = first_occ edge_key {} (edges kg)"
  by (simp add: optimize_unified_kg_def Let_def unique_edges_loop_first_occ)

text \<open>
  C6.  The deduplication step is idempotent: running \<open>_optimize_unified_kg\<close> on its own
  output returns that output unchanged (nodes, edges and statistics alike).
\<close>

theorem optimize_unified_kg_idempotent:
  "optimize_unified_kg (optimize_unified_kg kg) = optimize_unified_kg kg"
proof -
  have n: "unique_nodes_loop (unique_nodes_loop (nodes kg) {} []) {} []
             = unique_nodes_loop (nodes kg) {} []"
    by (simp add: unique_nodes_loop_first_occ first_occ_idem)
  have e: "unique_edges_loop (unique_edges_loop (edges kg) {} []) {} []
             = unique_edges_loop (edges kg) {} []"
    by (simp add: unique_edges_loop_first_occ first_occ_idem)
  show ?thesis
    by (simp add: optimize_unified_kg_def Let_def n e)
qed

text \<open>
  C1 (counterexample).  The fused and optimised graph of \<open>example_main_kg\<close> keeps the
  edge from \<open>ch1\<close> to \<open>ch2\<close> although no node has the id \<open>ch2\<close>: dangling edges are
  not dropped.
\<close>

theorem optimize_keeps_dangling_edge:
  "fuse_knowledge_graphs example_main_kg [example_sub_kg] []
     = Some (optimize_unified_kg (fuse_graphs example_main_kg [example_sub_kg] []))
   \<and> map node_id (nodes (optimize_unified_kg (fuse_graphs example_main_kg [example_sub_kg] [])))
     = [py ''ch1'']
   \<and> map target_id (edges (optimize_unified_kg (fuse_graphs example_main_kg [example_sub_kg] [])))
     = [py ''ch2'']
   \<and> \<not> endpoints_exist (optimize_unified_kg (fuse_graphs example_main_kg [example_sub_kg] []))"
  by code_simp

text \<open>
  C1 (amended).  After \<open>_optimize_unified_kg\<close> the node ids are pairwise different and so
  are the edge keys (source, target, relationship).  The step removes repeated keys and
  nothing else: every node id and every edge key of its input is still present, and every
  edge it returns is an edge of the input.  It does not look at whether the endpoints of
  an edge exist.
\<close>

theorem optimize_unified_kg_unique:
  "distinct (map node_id (nodes (optimize_unified_kg kg)))
   \<and> distinct (map edge_key (edges (optimize_unified_kg kg)))
   \<and> node_id ` set (nodes (optimize_unified_kg kg)) = node_id ` set (nodes kg)
   \<and> edge_key ` set (edges (optimize_unified_kg kg)) = edge_key ` set (edges kg)
   \<and> set (edges (optimize_unified_kg kg)) \<subseteq> set (edges kg)"
  by (simp add: optimize_nodes optimize_edges first_occ_distinct first_occ_keys first_occ_subset)

section \<open>Fusion of a main-logic graph alone\<close>

lemma first_occ_length: "length (first_occ k {} xs) = card (k ` set xs)"
proof -
  have "length (first_occ k {} xs) = length (map k (first_occ k {} xs))" by simp
  also have "\<dots> = card (set (map k (first_occ k {} xs)))"
    by (rule distinct_card [symmetric]) (rule first_occ_distinct)
  also have "\<dots> = card (k ` set xs)"
    by (simp add: first_occ_keys)
  finally show ?thesis .
qed

lemma first_occ_length_eq: "length (first_occ k {} xs) = length xs \<longleftrightarrow> distinct (map k xs)"
proof
  assume "length (first_occ k {} xs) = length xs"
  then have "card (set (map k xs)) = length (map k xs)"
    by (simp add: first_occ_length)
  then show "distinct (map k xs)" by (rule card_distinct)
next
  assume "distinct (map k xs)"
  then have "first_occ k {} xs = xs" by (simp add: first_occ_fixed)
  then show "length (first_occ k {} xs) = length xs" by simp
qed

lemma fuse_graphs_nil_nodes:
  "nodes (fuse_graphs main_kg [] []) = map main_unified_node (dict_get (mk_nodes main_kg) [])"
  by (simp add: fuse_graphs_def Let_def)

lemma fuse_graphs_nil_edges:
  "edges (fuse_graphs main_kg [] []) = map main_unified_edge (dict_get (mk_edges main_kg) [])"
  by (simp add: fuse_graphs_def Let_def build_circuit_application_connections_def)

lemma node_id_main: "map node_id (map main_unified_node ns) = map main_node_id ns"
  by (simp add: main_unified_node_def main_node_id_def)

lemma edge_key_main: "map edge_key (map main_unified_edge es) = map main_edge_key es"
  by (simp add: main_unified_edge_def main_edge_key_def edge_key_def)

text \<open>
  C5 (counterexample).  A main-logic graph with two nodes of the same id, fused with no
  section graphs and no connections: \<open>_fuse_graphs\<close> returns both nodes, the final
  deduplication keeps one, and the public entry \<open>fuse_knowledge_graphs\<close> returns no graph
  at all for an empty list of section graphs.
\<close>

theorem fusion_of_duplicate_ids_loses_a_node:
  "length (dict_get (mk_nodes duplicate_main_kg) []) = 2
   \<and> length (nodes (fuse_graphs duplicate_main_kg [] [])) = 2
   \<and> length (nodes (optimize_unified_kg (fuse_graphs duplicate_main_kg [] []))) = 1
   \<and> fuse_knowledge_graphs duplicate_main_kg [] [] = None"
  by code_simp

text \<open>
  C5 (amended).  \<open>_fuse_graphs\<close> on a main-logic graph, no section graphs and no
  connections returns as many nodes and edges as the main-logic graph has and records
  these numbers in the statistics: nothing is synthesised.  The final deduplication then
  leaves one node for every distinct id and one edge for every distinct key, so the counts
  are still those of the input exactly when the ids, respectively the edge keys, of the
  main-logic graph are pairwise different.  The public entry returns no graph for an empty
  list of section graphs.
\<close>

theorem fuse_main_only_counts:
  "length (nodes (fuse_graphs main_kg [] [])) = length (dict_get (mk_nodes main_kg) [])
   \<and> length (edges (fuse_graphs main_kg [] [])) = length (dict_get (mk_edges main_kg) [])
   \<and> stat_total_nodes (stats (fuse_graphs main_kg [] [])) = length (dict_get (mk_nodes main_kg) [])
   \<and> stat_total_edges (stats (fuse_graphs main_kg [] [])) = length (dict_get (mk_edges main_kg) [])
   \<and> length (nodes (optimize_unified_kg (fuse_graphs main_kg [] [])))
       = card (set (map main_node_id (dict_get (mk_nodes main_kg) [])))
   \<and> length (edges (optimize_unified_kg (fuse_graphs main_kg [] [])))
       = card (set (map main_edge_key (dict_get (mk_edges main_kg) [])))
   \<and> (length (nodes (optimize_unified_kg (fuse_graphs main_kg [] [])))
         = length (dict_get (mk_nodes main_kg) [])
       \<longleftrightarrow> distinct (map main_node_id (dict_get (mk_nodes main_kg) [])))
   \<and> (length (edges (optimize_unified_kg (fuse_graphs main_kg [] [])))
         = length (dict_get (mk_edges main_kg) [])
       \<longleftrightarrow> distinct (map main_edge_key (dict_get (mk_edges main_kg) [])))
   \<and> fuse_knowledge_graphs main_kg [] cross_connections = None"
proof -
  let ?ns = "dict_get (mk_nodes main_kg) []"
  let ?es = "dict_get (mk_edges main_kg) []"
  have raw: "length (nodes (fuse_graphs main_kg [] [])) = length ?ns"
      "length (edges (fuse_graphs main_kg [] [])) = length ?es"
    by (simp_all add: fuse_graphs_nil_nodes fuse_graphs_nil_edges)
  have st: "stat_total_nodes (stats (fuse_graphs main_kg [] [])) = length ?ns"
      "stat_total_edges (stats (fuse_graphs main_kg [] [])) = length ?es"
    by (simp_all add: fuse_graphs_def Let_def build_circuit_application_connections_def)
  have on: "nodes (optimize_unified_kg (fuse_graphs main_kg [] []))
      = first_occ node_id {} (map main_unified_node ?ns)"
    by (simp add: optimize_nodes fuse_graphs_nil_nodes)
  have oe: "edges (optimize_unified_kg (fuse_graphs main_kg [] []))
      = first_occ edge_key {} (map main_unified_edge ?es)"
    by (simp add: optimize_edges fuse_graphs_nil_edges)
  have idset: "node_id ` set (map main_unified_node ?ns) = set (map main_node_id ?ns)"
    using node_id_main [of ?ns] by (metis set_map)
  have keyset: "edge_key ` set (map main_unified_edge ?es) = set (map main_edge_key ?es)"
    using edge_key_main [of ?es] by (metis set_map)
  have cn: "length (nodes (optimize_unified_kg (fuse_graphs main_kg [] [])))
      = card (set (map main_node_id ?ns))"
    by (simp only: on first_occ_length idset)
  have ce: "length (edges (optimize_unified_kg (fuse_graphs main_kg [] [])))
      = card (set (map main_edge_key ?es))"
    by (simp only: oe first_occ_length keyset)
  have dn: "length (nodes (optimize_unified_kg (fuse_graphs main_kg [] []))) = length ?ns
      \<longleftrightarrow> distinct (map main_node_id ?ns)"
    using first_occ_length_eq [of node_id "map main_unified_node ?ns"]
    by (simp only: on length_map node_id_main)
  have de: "length (edges (optimize_unified_kg (fuse_graphs main_kg [] []))) = length ?es
      \<longleftrightarrow> distinct (map main_edge_key ?es)"
    using first_occ_length_eq [of edge_key "map main_unified_edge ?es"]
    by (simp only: oe length_map edge_key_main)
  have none: "fuse_knowledge_graphs main_kg [] cross_connections = None"
    by (simp add: fuse_knowledge_graphs_def)
  from raw st cn ce dn de none show ?thesis by blast
qed

section \<open>Keyword similarity\<close>










section \<open>Section spans\<close>



lemma span_ends_length: "length (span_ends n ms) = length ms"
  by (induction n ms rule: span_ends.induct) simp_all












end
